theory Spec2Isabelle
  imports Complex_Main
begin

section \<open>JavaScript values and the options object\<close>

text \<open>
  The constructor of \<open>FractalBackground\<close> (src/js/fractal.js) receives an untyped options
  object. The values that can reach it are modelled by \<open>jsval\<close>: \<open>JUndefined\<close> is both the
  value \<open>undefined\<close> and an absent property, \<open>JNaN\<close> is the number NaN (the other numbers are
  idealised as reals), an object is the list of its own properties (the first binding of a
  name is the property's value).
\<close>

datatype jsval =
    JUndefined
  | JNull
  | JBool bool
  | JNum real
  | JNaN
  | JStr string
  | JArr "jsval list"
  | JObj "(string \<times> jsval) list"

text \<open>ToBoolean: the falsy values are undefined, null, false, 0, NaN and the empty string.\<close>

fun truthy :: "jsval \<Rightarrow> bool" where
  "truthy JUndefined = False"
| "truthy JNull = False"
| "truthy (JBool b) = b"
| "truthy (JNum r) = (r \<noteq> 0)"
| "truthy JNaN = False"
| "truthy (JStr s) = (s \<noteq> [])"
| "truthy (JArr xs) = True"
| "truthy (JObj kvs) = True"

text \<open>The operator \<open>a || b\<close>: the left operand when it is truthy, the right one otherwise.\<close>

definition js_or :: "jsval \<Rightarrow> jsval \<Rightarrow> jsval" where
  "js_or a b = (if truthy a then a else b)"

text \<open>The test \<open>v !== false\<close>: strict inequality with the primitive false.\<close>

definition strict_neq_false :: "jsval \<Rightarrow> bool" where
  "strict_neq_false v = (v \<noteq> JBool False)"

fun nullish :: "jsval \<Rightarrow> bool" where
  "nullish JUndefined = True"
| "nullish JNull = True"
| "nullish v = False"

text \<open>
  Property read \<open>v.p\<close> on a value that is neither null nor undefined. None of the names read
  by the constructor (colors, start, end, interaction, enabled, strength, animation, speed)
  is a built-in property of a number, boolean, string or array, so only objects answer.
\<close>

fun member :: "jsval \<Rightarrow> string \<Rightarrow> jsval" where
  "member (JObj kvs) p = (case map_of kvs p of None \<Rightarrow> JUndefined | Some v \<Rightarrow> v)"
| "member v p = JUndefined"

text \<open>Optional chaining \<open>v?.p\<close>.\<close>

definition opt_member :: "jsval \<Rightarrow> string \<Rightarrow> jsval" where
  "opt_member v p = (if nullish v then JUndefined else member v p)"

subsection \<open>The resolved configuration\<close>

record config =
  colors_start :: jsval
  colors_end :: jsval
  interaction_enabled :: bool
  interaction_strength :: jsval
  animation_speed :: jsval

text \<open>The object literal assigned to \<open>this.config\<close> (constructor, lines 26 to 38).\<close>

definition resolve_config :: "jsval \<Rightarrow> config" where
  "resolve_config options = \<lparr>
     colors_start =
       js_or (opt_member (member options ''colors'') ''start'')
             (JArr [JNum 0.05, JNum 0.08, JNum 0.12]),
     colors_end =
       js_or (opt_member (member options ''colors'') ''end'')
             (JArr [JNum 0.2, JNum 0.5, JNum 0.55]),
     interaction_enabled =
       strict_neq_false (opt_member (member options ''interaction'') ''enabled''),
     interaction_strength =
       js_or (opt_member (member options ''interaction'') ''strength'') (JNum 1.5),
     animation_speed =
       js_or (opt_member (member options ''animation'') ''speed'') (JNum 1.0)
   \<rparr>"

section \<open>The host: document, GL context, clock\<close>

text \<open>
  What the environment answers is a parameter of the model. \<open>canvas_found\<close> says whether
  \<open>document.getElementById\<close> returns an element (an element that is found is taken to be
  a canvas), \<open>webgl_supported\<close> whether \<open>getContext('webgl')\<close> returns a context,
  \<open>compile_status\<close> and \<open>shader_info_log\<close> what the driver answers for each of the two
  shaders, \<open>link_status\<close> and \<open>program_info_log\<close> what it would answer for the program
  (fractal.js never asks), and \<open>null_shader_throws\<close> whether \<open>attachShader\<close> rejects a
  null shader with a TypeError.
\<close>

datatype shader_type = VERTEX_SHADER | FRAGMENT_SHADER

record host =
  canvas_found :: "string \<Rightarrow> bool"
  webgl_supported :: bool
  compile_status :: "shader_type \<Rightarrow> bool"
  shader_info_log :: "shader_type \<Rightarrow> string"
  link_status :: bool
  program_info_log :: string
  null_shader_throws :: bool

datatype uniform_name =
  U_resolution | U_mouse | U_time | U_colorStart | U_colorEnd | U_speed | U_strength

text \<open>
  The observable effects, in the order the code produces them: console output, the calls on
  the GL context, the request for the next display refresh, and an exception that leaves the
  running callback.
\<close>

datatype effect =
    ConsoleError string
  | Viewport nat nat nat nat
  | CompileShader shader_type
  | AttachShader "shader_type option"
  | LinkProgram
  | UseProgram
  | BufferData "real list"
  | Uniform2f uniform_name real real
  | Uniform1f uniform_name jsval
  | Uniform3fv uniform_name jsval
  | DrawArrays nat nat
  | RequestAnimationFrame
  | Uncaught string

text \<open>The fields the constructor assigns once both guards are passed.\<close>

record fractal =
  config :: config
  mouseX :: real
  mouseY :: real
  startTime :: int

text \<open>
  The page: window size, clock (\<open>Date.now()\<close>, milliseconds), the canvas size, the instance
  (\<open>None\<close> until the constructor has assigned its fields), which listeners are registered,
  whether a frame callback is pending, and the effects so far.
\<close>

record world =
  innerWidth :: nat
  innerHeight :: nat
  clock :: int
  canvas_width :: nat
  canvas_height :: nat
  fb :: "fractal option"
  resize_listener :: bool
  mousemove_listener :: bool
  frame_requested :: bool
  effects :: "effect list"

definition fresh_page :: "nat \<Rightarrow> nat \<Rightarrow> int \<Rightarrow> world" where
  "fresh_page iw ih t = \<lparr>
     innerWidth = iw, innerHeight = ih, clock = t,
     canvas_width = 300, canvas_height = 150,
     fb = None,
     resize_listener = False, mousemove_listener = False, frame_requested = False,
     effects = [] \<rparr>"

definition emit :: "world \<Rightarrow> effect list \<Rightarrow> world" where
  "emit w es = w\<lparr>effects := effects w @ es\<rparr>"

fun console_errors :: "effect list \<Rightarrow> string list" where
  "console_errors [] = []"
| "console_errors (ConsoleError m # es) = m # console_errors es"
| "console_errors (e # es) = console_errors es"

fun is_draw :: "effect \<Rightarrow> bool" where
  "is_draw (DrawArrays first n) = True"
| "is_draw e = False"

definition draw_calls :: "effect list \<Rightarrow> nat" where
  "draw_calls es = length (filter is_draw es)"

section \<open>The class FractalBackground\<close>

text \<open>\<open>resize()\<close>, lines 63 to 67.\<close>

definition resize :: "world \<Rightarrow> world" where
  "resize w =
     (let w1 = w\<lparr>canvas_width := innerWidth w\<rparr>;
          w2 = w1\<lparr>canvas_height := innerHeight w1\<rparr>
      in emit w2 [Viewport 0 0 (canvas_width w2) (canvas_height w2)])"

text \<open>\<open>compileShader(type, source)\<close>, lines 137 to 146; \<open>None\<close> is the returned null.\<close>

definition compileShader :: "host \<Rightarrow> shader_type \<Rightarrow> world \<Rightarrow> world \<times> shader_type option" where
  "compileShader h ty w =
     (let w1 = emit w [CompileShader ty]
      in if \<not> compile_status h ty
         then (emit w1 [ConsoleError (shader_info_log h ty)], None)
         else (w1, Some ty))"

text \<open>
  \<open>gl.attachShader(program, shader)\<close>: \<open>Inl\<close> is the world in which the call threw.
\<close>

definition attachShader :: "host \<Rightarrow> shader_type option \<Rightarrow> world \<Rightarrow> world + world" where
  "attachShader h s w =
     (if s = None \<and> null_shader_throws h
      then Inl (emit w [Uncaught ''TypeError''])
      else Inr (emit w [AttachShader s]))"

text \<open>\<open>createShaders()\<close>, lines 127 to 134. The link status is never read.\<close>

definition createShaders :: "host \<Rightarrow> world \<Rightarrow> world + world" where
  "createShaders h w =
     (let (w1, vs) = compileShader h VERTEX_SHADER w;
          (w2, fs) = compileShader h FRAGMENT_SHADER w1
      in (case attachShader h vs w2 of
            Inl w3 \<Rightarrow> Inl w3
          | Inr w3 \<Rightarrow>
              (case attachShader h fs w3 of
                 Inl w4 \<Rightarrow> Inl w4
               | Inr w4 \<Rightarrow> Inr (emit w4 [LinkProgram, UseProgram]))))"

text \<open>\<open>createBuffer()\<close>, lines 148 to 159: the six vertices of the two triangles.\<close>

definition createBuffer :: "world \<Rightarrow> world" where
  "createBuffer w = emit w [BufferData [-1, -1, 1, -1, -1, 1, -1, 1, 1, -1, 1, 1]]"

fun is_array :: "jsval \<Rightarrow> bool" where
  "is_array (JArr xs) = True"
| "is_array v = False"

text \<open>
  The closure \<open>loop\<close> of \<open>startAnimation()\<close>, lines 170 to 186. \<open>gl.uniform3fv\<close> takes a list
  of floats: a value that is not an array is rejected with a TypeError before the call takes
  place, which ends the callback before the draw call and before the next frame is requested.
\<close>

definition loop :: "fractal \<Rightarrow> world \<Rightarrow> world" where
  "loop i w =
     (let time = real_of_int (clock w - startTime i) * 0.001;
          w1 = emit w [Uniform2f U_resolution (real (canvas_width w)) (real (canvas_height w)),
                       Uniform2f U_mouse (mouseX i) (mouseY i),
                       Uniform1f U_time (JNum time)]
      in if \<not> is_array (colors_start (config i)) then emit w1 [Uncaught ''TypeError'']
         else let w2 = emit w1 [Uniform3fv U_colorStart (colors_start (config i))]
         in if \<not> is_array (colors_end (config i)) then emit w2 [Uncaught ''TypeError'']
         else let w3 = emit w2 [Uniform3fv U_colorEnd (colors_end (config i)),
                                Uniform1f U_speed (animation_speed (config i)),
                                Uniform1f U_strength (interaction_strength (config i)),
                                DrawArrays 0 6,
                                RequestAnimationFrame]
         in w3\<lparr>frame_requested := True\<rparr>)"

text \<open>
  \<open>startAnimation()\<close>, lines 161 to 188: after looking up the seven uniform locations it
  calls \<open>loop\<close> for the first time.
\<close>

definition startAnimation :: "fractal \<Rightarrow> world \<Rightarrow> world" where
  "startAnimation i w = loop i w"

text \<open>\<open>init()\<close>, lines 47 to 61. An exception in \<open>createShaders\<close> ends it.\<close>

definition init :: "host \<Rightarrow> fractal \<Rightarrow> world \<Rightarrow> world" where
  "init h i w =
     (let w1 = resize w;
          w2 = w1\<lparr>resize_listener := True\<rparr>;
          w3 = (if interaction_enabled (config i)
                then w2\<lparr>mousemove_listener := True\<rparr> else w2)
      in case createShaders h w3 of
           Inl w4 \<Rightarrow> w4
         | Inr w4 \<Rightarrow> startAnimation i (createBuffer w4))"

text \<open>
  The constructor, lines 12 to 45. The parameter default \<open>options = {}\<close> replaces undefined
  only; reading \<open>options.colors\<close> from null throws.
\<close>

definition construct :: "host \<Rightarrow> string \<Rightarrow> jsval \<Rightarrow> world \<Rightarrow> world" where
  \<open>construct h canvasId options w =
     (if \<not> canvas_found h canvasId
      then emit w [ConsoleError (''Canvas with id "'' @ canvasId @ ''" not found.'')]
      else if \<not> webgl_supported h
      then emit w [ConsoleError ''WebGL not supported'']
      else let opts = (if options = JUndefined then JObj [] else options)
      in if opts = JNull then emit w [Uncaught ''TypeError'']
      else let i = \<lparr>config = resolve_config opts, mouseX = 0, mouseY = 0,
                     startTime = clock w\<rparr>
      in init h i (w\<lparr>fb := Some i\<rparr>))\<close>

subsection \<open>Notifications from the host\<close>

text \<open>
  A pointer move at client position (x, y), a resize of the window to the given size, and a
  display refresh at the given clock value. A notification reaches the instance only through
  a listener that \<open>init\<close> registered or a frame that \<open>loop\<close> requested; the closures hold the
  instance, so \<open>fb\<close> is present whenever one of them runs.
\<close>

datatype event = MouseMove real real | Resize nat nat | Refresh int

fun step :: "world \<Rightarrow> event \<Rightarrow> world" where
  "step w (MouseMove x y) =
     (if mousemove_listener w
      then (case fb w of
              None \<Rightarrow> w
            | Some i \<Rightarrow> w\<lparr>fb := Some (i\<lparr>mouseX := x, mouseY := real (canvas_height w) - y\<rparr>)\<rparr>)
      else w)"
| "step w (Resize iw ih) =
     (let w1 = w\<lparr>innerWidth := iw, innerHeight := ih\<rparr>
      in if resize_listener w1 then resize w1 else w1)"
| "step w (Refresh t) =
     (let w1 = w\<lparr>clock := t\<rparr>
      in if frame_requested w1
         then (case fb w1 of
                 None \<Rightarrow> w1
               | Some i \<Rightarrow> loop i (w1\<lparr>frame_requested := False\<rparr>))
         else w1)"

fun run_events :: "world \<Rightarrow> event list \<Rightarrow> world" where
  "run_events w [] = w"
| "run_events w (e # es) = run_events (step w e) es"

text \<open>The whole life of a page: construction on a fresh page, then the notifications.\<close>

definition lifetime ::
  "host \<Rightarrow> string \<Rightarrow> jsval \<Rightarrow> nat \<Rightarrow> nat \<Rightarrow> int \<Rightarrow> event list \<Rightarrow> world" where
  "lifetime h canvasId options iw ih t evs =
     run_events (construct h canvasId options (fresh_page iw ih t)) evs"

section \<open>The fragment shader\<close>

text \<open>
  The GLSL program \<open>fsSource\<close> (lines 77 to 125), one invocation per pixel. A GLSL float is
  idealised as a real number; the loop counters, which only take the values 0 to 100, are
  natural numbers.
\<close>

type_synonym vec2 = "real \<times> real"
type_synonym vec3 = "real \<times> real \<times> real"
type_synonym vec4 = "real \<times> real \<times> real \<times> real"

record uniforms =
  u_resolution :: vec2
  u_mouse :: vec2
  u_time :: real
  u_colorStart :: vec3
  u_colorEnd :: vec3
  u_speed :: real
  u_strength :: real

definition max_iter :: nat where
  "max_iter = 100"

definition glsl_length :: "vec2 \<Rightarrow> real" where
  "glsl_length v = sqrt (fst v * fst v + snd v * snd v)"

definition glsl_dot :: "vec2 \<Rightarrow> vec2 \<Rightarrow> real" where
  "glsl_dot a b = fst a * fst b + snd a * snd b"

definition glsl_log2 :: "real \<Rightarrow> real" where
  "glsl_log2 x = log 2 x"

definition glsl_pow :: "real \<Rightarrow> real \<Rightarrow> real" where
  "glsl_pow x y = x powr y"

fun glsl_mix :: "vec3 \<Rightarrow> vec3 \<Rightarrow> real \<Rightarrow> vec3" where
  "glsl_mix (x1, x2, x3) (y1, y2, y3) a =
     (x1 * (1 - a) + y1 * a, x2 * (1 - a) + y2 * a, x3 * (1 - a) + y3 * a)"

text \<open>Lines 88 and 89: the plane coordinate of the pixel.\<close>

definition fs_uv :: "uniforms \<Rightarrow> vec2 \<Rightarrow> vec2" where
  "fs_uv u fragCoord =
     (let uv = ((fst fragCoord - 0.5 * fst (u_resolution u)) / snd (u_resolution u),
                (snd fragCoord - 0.5 * snd (u_resolution u)) / snd (u_resolution u))
      in (fst uv * 2.5, snd uv * 2.5))"

text \<open>Lines 92 to 95: the parameter c.\<close>

definition fs_c :: "uniforms \<Rightarrow> vec2" where
  "fs_c u =
     (let time = u_time u * u_speed u;
          auto_anim = (sin (time * 0.3) * 0.1, cos (time * 0.2) * 0.1);
          mouse_offset =
            ((fst (u_mouse u) / fst (u_resolution u) - 0.5) * u_strength u,
             (snd (u_mouse u) / snd (u_resolution u) - 0.5) * u_strength u)
      in (-0.8 + fst auto_anim + fst mouse_offset,
          0.156 + snd auto_anim + snd mouse_offset))"

text \<open>Lines 102 to 104: one pass of the loop body up to the assignment of z.\<close>

definition julia_step :: "vec2 \<Rightarrow> vec2 \<Rightarrow> vec2" where
  "julia_step c z =
     (let x = (fst z * fst z - snd z * snd z) + fst c;
          y = (2 * fst z * snd z) + snd c
      in (x, y))"

text \<open>Lines 101 to 107: the loop, from counter i, with the current z and iter.\<close>

function fractal_loop :: "vec2 \<Rightarrow> nat \<Rightarrow> vec2 \<Rightarrow> nat \<Rightarrow> vec2 \<times> nat" where
  "fractal_loop c i z iter =
     (if i < max_iter
      then (if glsl_length (julia_step c z) > 2
            then (julia_step c z, iter)
            else fractal_loop c (Suc i) (julia_step c z) (Suc iter))
      else (z, iter))"
  by pat_completeness auto
termination
  by (relation "measure (\<lambda>(c, i, z, iter). max_iter - i)") auto

text \<open>
  \<open>main()\<close>: the colour written to \<open>gl_FragColor\<close>. The first values of \<open>t\<close> and
  \<open>color\<close> (lines 109 and 110) are overwritten before they are read and are left out.
\<close>

definition fs_main :: "uniforms \<Rightarrow> vec2 \<Rightarrow> vec4" where
  "fs_main u fragCoord =
     (let uv = fs_uv u fragCoord;
          c = fs_c u
      in case fractal_loop c 0 uv 0 of (z, iter) \<Rightarrow>
         let color =
               (if iter < max_iter
                then (let smooth_val = real iter - glsl_log2 (glsl_log2 (glsl_dot z z)) + 4;
                          t = smooth_val / real max_iter;
                          glow = glsl_pow t 0.5 * (0.8 + sin (u_time u * 0.5) * 0.2)
                      in glsl_mix (u_colorStart u) (u_colorEnd u) glow)
                else (0.01, 0.01, 0.02))
         in (fst color, fst (snd color), snd (snd color), 1))"

subsection \<open>The escape-time iteration in the words of the specification\<close>

text \<open>
  The orbit of the map that sends z to \<open>z\<^sup>2 + c\<close> over the complex numbers, and the test
  \<open>|z| > 2\<close>.
\<close>

definition to_complex :: "vec2 \<Rightarrow> complex" where
  "to_complex v = Complex (fst v) (snd v)"

definition spec_orbit :: "complex \<Rightarrow> complex \<Rightarrow> nat \<Rightarrow> complex" where
  "spec_orbit c z0 n = ((\<lambda>z. z * z + c) ^^ n) z0"

definition escaped :: "complex \<Rightarrow> bool" where
  "escaped z = (cmod z > 2)"

subsection \<open>The colouring in the words of the specification\<close>

definition spec_glow :: "nat \<Rightarrow> vec2 \<Rightarrow> real \<Rightarrow> real" where
  "spec_glow iter z elapsedSeconds =
     (let smooth = real iter - log 2 (log 2 (fst z * fst z + snd z * snd z)) + 4;
          t = smooth / 100
      in t powr 0.5 * (0.8 + 0.2 * sin (0.5 * elapsedSeconds)))"

fun spec_blend :: "vec3 \<Rightarrow> vec3 \<Rightarrow> real \<Rightarrow> vec3" where
  "spec_blend (a1, a2, a3) (b1, b2, b3) g =
     (a1 + (b1 - a1) * g, a2 + (b2 - a2) * g, a3 + (b3 - a3) * g)"

fun opaque :: "vec3 \<Rightarrow> vec4" where
  "opaque (r, g, b) = (r, g, b, 1)"

section \<open>Observations on a page\<close>

text \<open>
  The recorded pointer position and the resolved interaction flag of the instance, the colour
  values handed to \<open>gl.uniform3fv\<close> in order, and the number of display refreshes among the
  notifications.
\<close>

definition pointer :: "world \<Rightarrow> (real \<times> real) option" where
  "pointer w = map_option (\<lambda>i. (mouseX i, mouseY i)) (fb w)"

definition interaction :: "world \<Rightarrow> bool option" where
  "interaction w = map_option (\<lambda>i. interaction_enabled (config i)) (fb w)"

fun fed_colors :: "effect list \<Rightarrow> (uniform_name \<times> jsval) list" where
  "fed_colors [] = []"
| "fed_colors (Uniform3fv n v # es) = (n, v) # fed_colors es"
| "fed_colors (e # es) = fed_colors es"

fun is_refresh :: "event \<Rightarrow> bool" where
  "is_refresh (Refresh t) = True"
| "is_refresh e = False"

definition count_refresh :: "event list \<Rightarrow> nat" where
  "count_refresh evs = length (filter is_refresh evs)"

text \<open>What each shader contributes to the effects of \<open>createShaders\<close>.\<close>

definition shader_effects :: "host \<Rightarrow> shader_type \<Rightarrow> effect list" where
  "shader_effects h ty =
     CompileShader ty #
     (if compile_status h ty then [] else [ConsoleError (shader_info_log h ty)])"

definition base_effects :: "host \<Rightarrow> nat \<Rightarrow> nat \<Rightarrow> effect list" where
  "base_effects h iw ih =
     Viewport 0 0 iw ih # shader_effects h VERTEX_SHADER @ shader_effects h FRAGMENT_SHADER"

text \<open>Invariants of the page.\<close>

definition inert :: "world \<Rightarrow> bool" where
  "inert w = (\<not> mousemove_listener w \<and> \<not> resize_listener w \<and> \<not> frame_requested w)"

definition wired :: "world \<Rightarrow> bool" where
  "wired w = (case fb w of
                None \<Rightarrow> \<not> mousemove_listener w
              | Some i \<Rightarrow> mousemove_listener w = interaction_enabled (config i))"

definition running :: "jsval \<Rightarrow> jsval \<Rightarrow> world \<Rightarrow> bool" where
  "running cs ce w =
     (frame_requested w \<and> is_array cs \<and> is_array ce \<and>
      (\<exists>i. fb w = Some i \<and> colors_start (config i) = cs \<and> colors_end (config i) = ce))"

definition fed_from :: "jsval \<Rightarrow> jsval \<Rightarrow> world \<Rightarrow> bool" where
  "fed_from cs ce w =
     (set (fed_colors (effects w)) \<subseteq> {(U_colorStart, cs), (U_colorEnd, ce)} \<and>
      (case fb w of None \<Rightarrow> True
       | Some i \<Rightarrow> colors_start (config i) = cs \<and> colors_end (config i) = ce))"

section \<open>Concrete pages\<close>

text \<open>The options of src/js/demo.js, and hosts that differ in what the GL driver answers.\<close>

definition demo_options :: jsval where
  "demo_options = JObj
     [(''colors'', JObj [(''start'', JArr [JNum 0.05, JNum 0.08, JNum 0.12]),
                         (''end'', JArr [JNum 0.2, JNum 0.5, JNum 0.55])]),
      (''interaction'', JObj [(''enabled'', JBool True), (''strength'', JNum 1.5)]),
      (''animation'', JObj [(''speed'', JNum 1.5)])]"

definition working_host :: host where
  "working_host = \<lparr> canvas_found = (\<lambda>s. s = ''fractal-canvas''), webgl_supported = True,
     compile_status = (\<lambda>ty. True), shader_info_log = (\<lambda>ty. []),
     link_status = True, program_info_log = [], null_shader_throws = True \<rparr>"

definition link_failing_host :: host where
  "link_failing_host = \<lparr> canvas_found = (\<lambda>s. s = ''fractal-canvas''), webgl_supported = True,
     compile_status = (\<lambda>ty. True), shader_info_log = (\<lambda>ty. []),
     link_status = False, program_info_log = ''link failed'', null_shader_throws = True \<rparr>"

definition bad_fragment_host :: host where
  "bad_fragment_host = \<lparr> canvas_found = (\<lambda>s. s = ''fractal-canvas''), webgl_supported = True,
     compile_status = (\<lambda>ty. ty = VERTEX_SHADER), shader_info_log = (\<lambda>ty. ''syntax error''),
     link_status = False, program_info_log = ''link failed'', null_shader_throws = True \<rparr>"

definition no_webgl_host :: host where
  "no_webgl_host = \<lparr> canvas_found = (\<lambda>s. s = ''fractal-canvas''), webgl_supported = False,
     compile_status = (\<lambda>ty. True), shader_info_log = (\<lambda>ty. []),
     link_status = True, program_info_log = [], null_shader_throws = True \<rparr>"

text \<open>
  Uniform values of two frames at elapsed time 0: a 4 by 2 surface with the pointer at its
  centre, and a 1001 by 1001 surface on which the pointer offset cancels the base parameter.
\<close>

definition small_frame :: uniforms where
  "small_frame = \<lparr> u_resolution = (4, 2), u_mouse = (2, 1), u_time = 0,
     u_colorStart = (0.05, 0.08, 0.12), u_colorEnd = (0.2, 0.5, 0.55),
     u_speed = 1, u_strength = 1.5 \<rparr>"

definition still_frame :: uniforms where
  "still_frame = \<lparr> u_resolution = (1001, 1001), u_mouse = (700.7, 436.436), u_time = 0,
     u_colorStart = (0.05, 0.08, 0.12), u_colorEnd = (0.2, 0.5, 0.55),
     u_speed = 1, u_strength = 4 \<rparr>"

section \<open>Facts about the model\<close>

subsection \<open>Effects and fields\<close>

lemma emit_fields [simp]:
  "fb (emit w es) = fb w"
  "mousemove_listener (emit w es) = mousemove_listener w"
  "resize_listener (emit w es) = resize_listener w"
  "frame_requested (emit w es) = frame_requested w"
  "canvas_height (emit w es) = canvas_height w"
  "canvas_width (emit w es) = canvas_width w"
  "clock (emit w es) = clock w"
  "innerWidth (emit w es) = innerWidth w"
  "innerHeight (emit w es) = innerHeight w"
  "effects (emit w es) = effects w @ es"
  by (simp_all add: emit_def)

lemma console_errors_append [simp]:
  "console_errors (xs @ ys) = console_errors xs @ console_errors ys"
  by (induction xs rule: console_errors.induct) simp_all

lemma draw_calls_append [simp]:
  "draw_calls (xs @ ys) = draw_calls xs + draw_calls ys"
  by (simp add: draw_calls_def)

lemma draw_calls_Nil [simp]: "draw_calls [] = 0"
  by (simp add: draw_calls_def)

lemma draw_calls_Cons [simp]: "draw_calls (e # es) = (if is_draw e then 1 else 0) + draw_calls es"
  by (simp add: draw_calls_def)

lemma resize_fields [simp]:
  "fb (resize w) = fb w"
  "mousemove_listener (resize w) = mousemove_listener w"
  "resize_listener (resize w) = resize_listener w"
  "frame_requested (resize w) = frame_requested w"
  "clock (resize w) = clock w"
  "canvas_height (resize w) = innerHeight w"
  "canvas_width (resize w) = innerWidth w"
  "effects (resize w) = effects w @ [Viewport 0 0 (innerWidth w) (innerHeight w)]"
  by (simp_all add: resize_def Let_def)

lemma compileShader_eq:
  "compileShader h ty w =
     (emit w (shader_effects h ty), if compile_status h ty then Some ty else None)"
  by (simp add: compileShader_def shader_effects_def emit_def Let_def)

lemma createShaders_Inr:
  "createShaders h w = Inr w' \<Longrightarrow>
     (null_shader_throws h \<longrightarrow> compile_status h VERTEX_SHADER \<and> compile_status h FRAGMENT_SHADER) \<and>
     w' = emit w (shader_effects h VERTEX_SHADER @ shader_effects h FRAGMENT_SHADER @
                  [AttachShader (if compile_status h VERTEX_SHADER then Some VERTEX_SHADER else None),
                   AttachShader (if compile_status h FRAGMENT_SHADER then Some FRAGMENT_SHADER else None),
                   LinkProgram, UseProgram])"
  by (auto simp: createShaders_def compileShader_eq attachShader_def emit_def split: if_splits)

lemma createShaders_Inl:
  "createShaders h w = Inl w' \<Longrightarrow>
     null_shader_throws h \<and> \<not> (compile_status h VERTEX_SHADER \<and> compile_status h FRAGMENT_SHADER) \<and>
     (\<exists>es. w' = emit w (shader_effects h VERTEX_SHADER @ shader_effects h FRAGMENT_SHADER @ es)
        \<and> draw_calls es = 0 \<and> console_errors es = [])"
  by (auto simp: createShaders_def compileShader_eq attachShader_def emit_def split: if_splits)

lemma loop_fields [simp]:
  "fb (loop i w) = fb w"
  "mousemove_listener (loop i w) = mousemove_listener w"
  "resize_listener (loop i w) = resize_listener w"
  "canvas_height (loop i w) = canvas_height w"
  "canvas_width (loop i w) = canvas_width w"
  "clock (loop i w) = clock w"
  by (simp_all add: loop_def Let_def)

lemma startAnimation_loop [simp]: "startAnimation i w = loop i w"
  by (simp add: startAnimation_def)

lemma init_fields:
  "fb (init h i w) = fb w"
  "mousemove_listener (init h i w) = (interaction_enabled (config i) \<or> mousemove_listener w)"
  "resize_listener (init h i w) = True"
  "canvas_height (init h i w) = innerHeight w"
  "canvas_width (init h i w) = innerWidth w"
  by (auto simp: init_def Let_def createBuffer_def split: sum.splits
           dest!: createShaders_Inl createShaders_Inr)

lemma construct_fb:
  "fb (construct h canvasId options (fresh_page iw ih t)) = Some i \<Longrightarrow>
   canvas_found h canvasId \<and> webgl_supported h \<and> options \<noteq> JNull \<and>
   i = \<lparr>config = resolve_config (if options = JUndefined then JObj [] else options),
         mouseX = 0, mouseY = 0, startTime = t\<rparr>"
  by (auto simp: construct_def init_fields fresh_page_def Let_def split: if_splits)

lemma resolve_config_undefined: "resolve_config JUndefined = resolve_config (JObj [])"
  by (simp add: resolve_config_def)

subsection \<open>Listeners\<close>

lemma inert_step: "inert w \<Longrightarrow> inert (step w e) \<and> effects (step w e) = effects w \<and> fb (step w e) = fb w"
  by (cases e) (simp_all add: inert_def Let_def)

lemma inert_run: "inert w \<Longrightarrow> effects (run_events w evs) = effects w \<and> fb (run_events w evs) = fb w"
  by (induction evs arbitrary: w) (simp_all add: inert_step)

lemma run_events_append: "run_events w (es @ fs) = run_events (run_events w es) fs"
  by (induction es arbitrary: w) simp_all

lemma step_config:
  "fb w = Some i \<Longrightarrow> \<exists>i'. fb (step w e) = Some i' \<and> config i' = config i \<and> startTime i' = startTime i"
  by (cases e) (auto simp: Let_def)

lemma step_listener: "mousemove_listener (step w e) = mousemove_listener w"
  by (cases e) (auto simp: Let_def split: option.splits)

lemma step_fb_None: "fb w = None \<Longrightarrow> fb (step w e) = None"
  by (cases e) (auto simp: Let_def)

lemma wired_step: "wired w \<Longrightarrow> wired (step w e)"
proof (cases "fb w")
  case None
  assume "wired w"
  with None show ?thesis
    by (simp add: wired_def step_fb_None step_listener)
next
  case (Some i)
  assume "wired w"
  moreover from step_config [OF Some, of e] obtain i' where
    "fb (step w e) = Some i'" "config i' = config i" by blast
  ultimately show ?thesis using Some
    by (simp add: wired_def step_listener)
qed

lemma wired_run: "wired w \<Longrightarrow> wired (run_events w evs)"
  by (induction evs arbitrary: w) (simp_all add: wired_step)

lemma wired_construct: "wired (construct h canvasId options (fresh_page iw ih t))"
  by (auto simp: wired_def construct_def init_fields fresh_page_def Let_def)

lemma wired_lifetime: "wired (lifetime h canvasId options iw ih t evs)"
  by (simp add: lifetime_def wired_run wired_construct)

lemma unwired_step: "\<not> mousemove_listener w \<Longrightarrow> fb (step w e) = fb w"
  by (cases e) (auto simp: Let_def split: option.splits)

lemma unwired_run: "\<not> mousemove_listener w \<Longrightarrow> fb (run_events w evs) = fb w"
  by (induction evs arbitrary: w) (simp_all add: unwired_step step_listener)

subsection \<open>The frame loop\<close>

lemma fed_colors_append [simp]: "fed_colors (xs @ ys) = fed_colors xs @ fed_colors ys"
  by (induction xs rule: fed_colors.induct) simp_all

lemma shader_effects_quiet [simp]:
  "fed_colors (shader_effects h ty) = []" "draw_calls (shader_effects h ty) = 0"
  by (simp_all add: shader_effects_def)

lemma shader_effects_errors:
  "console_errors (shader_effects h ty) = (if compile_status h ty then [] else [shader_info_log h ty])"
  by (simp add: shader_effects_def)

lemma loop_arrays:
  assumes "is_array (colors_start (config i))" "is_array (colors_end (config i))"
  shows "frame_requested (loop i w)"
    and "draw_calls (effects (loop i w)) = Suc (draw_calls (effects w))"
    and "fed_colors (effects (loop i w)) =
           fed_colors (effects w) @ [(U_colorStart, colors_start (config i)),
                                     (U_colorEnd, colors_end (config i))]"
    and "console_errors (effects (loop i w)) = console_errors (effects w)"
  using assms by (simp_all add: loop_def Let_def)

lemma loop_grows: "\<exists>es. effects (loop i w) = effects w @ es"
  by (simp add: loop_def Let_def)

lemma step_grows: "\<exists>es. effects (step w e) = effects w @ es"
proof (cases e)
  case (MouseMove x y)
  then show ?thesis by (auto split: option.splits)
next
  case (Resize iw ih)
  then show ?thesis by (simp add: Let_def)
next
  case (Refresh t)
  show ?thesis
  proof (cases "frame_requested w \<and> fb w \<noteq> None")
    case True
    then obtain i where "fb w = Some i" by auto
    with True Refresh loop_grows [of i "w\<lparr>clock := t, frame_requested := False\<rparr>"]
    show ?thesis by (simp add: Let_def)
  next
    case False
    with Refresh show ?thesis by (auto simp: Let_def)
  qed
qed

lemma run_grows: "\<exists>es. effects (run_events w evs) = effects w @ es"
proof (induction evs arbitrary: w)
  case Nil
  show ?case by simp
next
  case (Cons e evs)
  from step_grows [of w e] obtain es where "effects (step w e) = effects w @ es" by blast
  moreover from Cons [of "step w e"] obtain fs where
    "effects (run_events (step w e) evs) = effects (step w e) @ fs" by blast
  ultimately show ?case by simp
qed

text \<open>A page whose loop has stopped, or never started, draws nothing more.\<close>

lemma stopped_step:
  "\<not> frame_requested w \<Longrightarrow>
     \<not> frame_requested (step w e) \<and> draw_calls (effects (step w e)) = draw_calls (effects w)"
  by (cases e) (auto simp: Let_def split: option.splits)

lemma stopped_run:
  "\<not> frame_requested w \<Longrightarrow> draw_calls (effects (run_events w evs)) = draw_calls (effects w)"
  by (induction evs arbitrary: w) (simp_all add: stopped_step)

text \<open>A page whose loop runs with array colours draws once per refresh.\<close>

lemma running_step:
  assumes "running cs ce w"
  shows "running cs ce (step w e)"
    and "draw_calls (effects (step w e)) = draw_calls (effects w) + (if is_refresh e then 1 else 0)"
    and "fed_colors (effects (step w e)) =
           fed_colors (effects w) @ (if is_refresh e then [(U_colorStart, cs), (U_colorEnd, ce)] else [])"
  using assms by (cases e; auto simp: running_def Let_def loop_arrays)+

lemma running_run_draws:
  "running cs ce w \<Longrightarrow>
     draw_calls (effects (run_events w evs)) = draw_calls (effects w) + count_refresh evs"
  by (induction evs arbitrary: w) (simp_all add: running_step count_refresh_def)

lemma stopped_step_fed:
  "\<not> frame_requested w \<Longrightarrow> fed_colors (effects (step w e)) = fed_colors (effects w)"
  by (cases e) (auto simp: Let_def split: option.splits)

lemma stopped_run_fed:
  "\<not> frame_requested w \<Longrightarrow> fed_colors (effects (run_events w evs)) = fed_colors (effects w)"
  by (induction evs arbitrary: w) (simp_all add: stopped_step stopped_step_fed)

lemma running_run_fed:
  "running cs ce w \<Longrightarrow>
     fed_colors (effects (run_events w evs)) =
       fed_colors (effects w) @
       concat (replicate (count_refresh evs) [(U_colorStart, cs), (U_colorEnd, ce)])"
  by (induction evs arbitrary: w) (simp_all add: running_step count_refresh_def)

subsection \<open>Construction\<close>

text \<open>The two ways construction can end once both guards are passed.\<close>

lemma construct_aborted:
  assumes "canvas_found h canvasId" "webgl_supported h" "options \<noteq> JNull"
    and "null_shader_throws h"
    and "\<not> (compile_status h VERTEX_SHADER \<and> compile_status h FRAGMENT_SHADER)"
  shows "\<not> frame_requested (construct h canvasId options (fresh_page iw ih t))"
    and "draw_calls (effects (construct h canvasId options (fresh_page iw ih t))) = 0"
    and "fed_colors (effects (construct h canvasId options (fresh_page iw ih t))) = []"
  using assms
  by (auto simp: construct_def init_def Let_def fresh_page_def createShaders_def
        compileShader_eq attachShader_def split: sum.splits if_splits)

lemma construct_started:
  assumes "canvas_found h canvasId" "webgl_supported h" "options \<noteq> JNull"
    and "null_shader_throws h \<longrightarrow>
           compile_status h VERTEX_SHADER \<and> compile_status h FRAGMENT_SHADER"
    and "cs = colors_start (resolve_config options)" "ce = colors_end (resolve_config options)"
    and "is_array cs" "is_array ce"
  shows "running cs ce (construct h canvasId options (fresh_page iw ih t))"
    and "draw_calls (effects (construct h canvasId options (fresh_page iw ih t))) = 1"
    and "fed_colors (effects (construct h canvasId options (fresh_page iw ih t))) =
           [(U_colorStart, cs), (U_colorEnd, ce)]"
  using assms
  by (auto simp: construct_def init_def Let_def fresh_page_def createShaders_def
        compileShader_eq attachShader_def createBuffer_def loop_arrays running_def
        resolve_config_undefined
        split: sum.splits if_splits)

lemma createShaders_effects:
  "\<exists>w' es. (createShaders h w = Inl w' \<or> createShaders h w = Inr w') \<and>
      effects w' = effects w @ shader_effects h VERTEX_SHADER @ shader_effects h FRAGMENT_SHADER @ es"
proof (cases "createShaders h w")
  case (Inl w')
  from createShaders_Inl [OF Inl] Inl show ?thesis by auto
next
  case (Inr w')
  from createShaders_Inr [OF Inr] Inr show ?thesis by auto
qed

lemma init_effects:
  "\<exists>es. effects (init h i w) =
     effects w @ base_effects h (innerWidth w) (innerHeight w) @ es"
proof -
  let ?w3 = "if interaction_enabled (config i)
             then (resize w)\<lparr>resize_listener := True, mousemove_listener := True\<rparr>
             else (resize w)\<lparr>resize_listener := True\<rparr>"
  have e3: "effects ?w3 = effects w @ [Viewport 0 0 (innerWidth w) (innerHeight w)]"
    by simp
  from createShaders_effects [of h ?w3] obtain w' es where
    r: "createShaders h ?w3 = Inl w' \<or> createShaders h ?w3 = Inr w'" and
    e: "effects w' = effects ?w3 @ shader_effects h VERTEX_SHADER @ shader_effects h FRAGMENT_SHADER @ es"
    by blast
  from r show ?thesis
  proof
    assume "createShaders h ?w3 = Inl w'"
    then have "init h i w = w'" by (simp add: init_def Let_def)
    with e e3 show ?thesis by (simp add: base_effects_def)
  next
    assume "createShaders h ?w3 = Inr w'"
    then have "init h i w = loop i (createBuffer w')" by (simp add: init_def Let_def)
    moreover from loop_grows [of i "createBuffer w'"] obtain fs where
      "effects (loop i (createBuffer w')) = effects (createBuffer w') @ fs" by blast
    ultimately show ?thesis using e e3 by (simp add: base_effects_def createBuffer_def)
  qed
qed

lemma construct_reports:
  assumes "canvas_found h canvasId" "webgl_supported h" "options \<noteq> JNull"
    and "\<not> compile_status h ty"
  shows "shader_info_log h ty \<in>
           set (console_errors (effects (construct h canvasId options (fresh_page iw ih t))))"
proof -
  let ?i = "\<lparr>config = resolve_config (if options = JUndefined then JObj [] else options),
              mouseX = 0, mouseY = 0, startTime = t\<rparr>"
  let ?w = "(fresh_page iw ih t)\<lparr>fb := Some ?i\<rparr>"
  have c: "construct h canvasId options (fresh_page iw ih t) = init h ?i ?w"
    using assms(1-3) by (simp add: construct_def Let_def fresh_page_def)
  from init_effects [of h ?i ?w] obtain es where
    "effects (init h ?i ?w) = base_effects h iw ih @ es"
    by (auto simp: fresh_page_def)
  moreover have "shader_info_log h ty \<in> set (console_errors (base_effects h iw ih))"
    using assms(4) by (cases ty) (simp_all add: base_effects_def shader_effects_errors)
  ultimately show ?thesis using c by simp
qed

lemma errors_persist:
  "m \<in> set (console_errors (effects w)) \<Longrightarrow> m \<in> set (console_errors (effects (run_events w evs)))"
  using run_grows [of w evs] by auto

subsection \<open>The escape-time loop\<close>

lemma glsl_length_gt_2: "(2 < glsl_length v) = (4 < glsl_dot v v)"
proof -
  have "sqrt 4 = 2" by simp
  then have "(2 < sqrt (glsl_dot v v)) = (4 < glsl_dot v v)"
    using real_sqrt_less_iff [of 4 "glsl_dot v v"] by simp
  then show ?thesis by (simp add: glsl_length_def glsl_dot_def)
qed

lemma glsl_length_cmod: "glsl_length v = cmod (to_complex v)"
  by (simp add: glsl_length_def to_complex_def cmod_def power2_eq_square)

lemma julia_step_complex:
  "to_complex (julia_step c z) = to_complex z * to_complex z + to_complex c"
  by (simp add: julia_step_def to_complex_def Let_def complex_eq_iff)

lemma orbit_complex:
  "to_complex ((julia_step c ^^ n) z) = spec_orbit (to_complex c) (to_complex z) n"
  by (induction n) (simp_all add: spec_orbit_def julia_step_complex)

lemma escaped_step: "(2 < glsl_length v) = escaped (to_complex v)"
  by (simp add: escaped_def glsl_length_cmod)

lemma fractal_loop_run:
  "i \<le> max_iter \<Longrightarrow> fractal_loop c i z iter = (z', it) \<Longrightarrow>
     iter \<le> it \<and> it - iter \<le> max_iter - i \<and>
     (\<forall>k < it - iter. \<not> 2 < glsl_length ((julia_step c ^^ Suc k) z)) \<and>
     (it - iter < max_iter - i \<longrightarrow>
        2 < glsl_length ((julia_step c ^^ Suc (it - iter)) z) \<and>
        z' = (julia_step c ^^ Suc (it - iter)) z) \<and>
     (it - iter = max_iter - i \<longrightarrow> z' = (julia_step c ^^ (max_iter - i)) z)"
proof (induction c i z iter arbitrary: z' it rule: fractal_loop.induct)
  case (1 c i z iter)
  show ?case
  proof (cases "i < max_iter")
    case False
    with "1.prems" show ?thesis by simp
  next
    case True
    show ?thesis
    proof (cases "2 < glsl_length (julia_step c z)")
      case esc: True
      with True "1.prems" show ?thesis by simp
    next
      case False
      with True "1.prems" have r: "fractal_loop c (Suc i) (julia_step c z) (Suc iter) = (z', it)"
        by simp
      from True have "Suc i \<le> max_iter" by simp
      from "1.IH" [OF True False this r]
      have ih: "Suc iter \<le> it" "it - Suc iter \<le> max_iter - Suc i"
        "\<forall>k < it - Suc iter. \<not> 2 < glsl_length ((julia_step c ^^ Suc k) (julia_step c z))"
        "it - Suc iter < max_iter - Suc i \<longrightarrow>
           2 < glsl_length ((julia_step c ^^ Suc (it - Suc iter)) (julia_step c z)) \<and>
           z' = (julia_step c ^^ Suc (it - Suc iter)) (julia_step c z)"
        "it - Suc iter = max_iter - Suc i \<longrightarrow>
           z' = (julia_step c ^^ (max_iter - Suc i)) (julia_step c z)"
        by blast+
      have sw: "\<And>n. (julia_step c ^^ n) (julia_step c z) = (julia_step c ^^ Suc n) z"
        by (simp add: funpow_swap1)
      from ih(1) have d: "it - iter = Suc (it - Suc iter)" by simp
      from True have m: "max_iter - i = Suc (max_iter - Suc i)" by simp
      have a: "\<forall>k < it - iter. \<not> 2 < glsl_length ((julia_step c ^^ Suc k) z)"
      proof (intro allI impI)
        fix k assume k: "k < it - iter"
        show "\<not> 2 < glsl_length ((julia_step c ^^ Suc k) z)"
        proof (cases k)
          case 0
          with False show ?thesis by simp
        next
          case (Suc k')
          with k d have "k' < it - Suc iter" by simp
          with ih(3) have "\<not> 2 < glsl_length ((julia_step c ^^ Suc k') (julia_step c z))" by blast
          then have "\<not> 2 < glsl_length ((julia_step c ^^ Suc (Suc k')) z)"
            using sw [of "Suc k'"] by metis
          with Suc show ?thesis by blast
        qed
      qed
      have b: "it - iter < max_iter - i \<longrightarrow>
        2 < glsl_length ((julia_step c ^^ Suc (it - iter)) z) \<and>
        z' = (julia_step c ^^ Suc (it - iter)) z"
        using ih(4) d m sw [of "Suc (it - Suc iter)"] by (metis Suc_less_eq)
      have e: "it - iter = max_iter - i \<longrightarrow> z' = (julia_step c ^^ (max_iter - i)) z"
        using ih(5) d m sw [of "max_iter - Suc i"] by (metis nat.inject)
      from ih(1,2) a b e d m show ?thesis by simp
    qed
  qed
qed

subsection \<open>The colouring\<close>

lemma mix_is_blend: "glsl_mix a b g = spec_blend a b g"
  by (cases a, cases b) (simp add: algebra_simps)

lemma glow_is_spec_glow:
  "glsl_pow ((real iter - glsl_log2 (glsl_log2 (glsl_dot z z)) + 4) / real max_iter) 0.5 *
     (0.8 + sin (t * 0.5) * 0.2) = spec_glow iter z t"
  by (simp add: spec_glow_def glsl_pow_def glsl_log2_def glsl_dot_def max_iter_def
        mult.commute)

lemma opaque_components: "(fst c, fst (snd c), snd (snd c), 1) = opaque c"
  by (cases c) simp

lemma zero_orbit: "fractal_loop (0, 0) i (0, 0) iter = ((0, 0), iter + (max_iter - i))"
proof (induction "max_iter - i" arbitrary: i iter)
  case 0
  then show ?case by simp
next
  case (Suc d)
  then have "i < max_iter" "d = max_iter - Suc i" by simp_all
  with Suc(1) [of "Suc i" "Suc iter"] show ?case
    by (simp add: julia_step_def glsl_length_def)
qed

subsection \<open>The colours handed to the program\<close>

lemma loop_fed:
  "set (fed_colors (effects (loop i w))) \<subseteq>
     set (fed_colors (effects w)) \<union>
     {(U_colorStart, colors_start (config i)), (U_colorEnd, colors_end (config i))}"
  by (auto simp: loop_def Let_def)

lemma fed_from_step: "fed_from cs ce w \<Longrightarrow> fed_from cs ce (step w e)"
proof (cases e)
  case (MouseMove x y)
  assume "fed_from cs ce w"
  with MouseMove show ?thesis by (auto simp: fed_from_def split: option.splits)
next
  case (Resize iw ih)
  assume "fed_from cs ce w"
  with Resize show ?thesis by (auto simp: fed_from_def Let_def split: option.splits)
next
  case (Refresh t)
  assume a: "fed_from cs ce w"
  show ?thesis
  proof (cases "frame_requested w \<and> fb w \<noteq> None")
    case True
    then obtain i where i: "fb w = Some i" by auto
    from loop_fed [of i "w\<lparr>clock := t, frame_requested := False\<rparr>"] a i True Refresh
    show ?thesis by (auto simp: fed_from_def Let_def)
  next
    case False
    with a Refresh show ?thesis by (auto simp: fed_from_def Let_def split: option.splits)
  qed
qed

lemma fed_from_run: "fed_from cs ce w \<Longrightarrow> fed_from cs ce (run_events w evs)"
  by (induction evs arbitrary: w) (simp_all add: fed_from_step)

lemma createShaders_fed:
  "createShaders h w = Inl w' \<or> createShaders h w = Inr w' \<Longrightarrow>
     fed_colors (effects w') = fed_colors (effects w) \<and> fb w' = fb w"
  by (auto simp: createShaders_def compileShader_eq attachShader_def emit_def shader_effects_def
           split: if_splits)

lemma init_fed:
  assumes "fb w = Some i" "fed_colors (effects w) = []"
  shows "fed_from (colors_start (config i)) (colors_end (config i)) (init h i w)"
proof -
  let ?w3 = "if interaction_enabled (config i)
             then (resize w)\<lparr>resize_listener := True, mousemove_listener := True\<rparr>
             else (resize w)\<lparr>resize_listener := True\<rparr>"
  have w3: "fed_colors (effects ?w3) = []" "fb ?w3 = Some i" using assms by simp_all
  show ?thesis
  proof (cases "createShaders h ?w3")
    case (Inl w')
    then have "init h i w = w'" by (simp add: init_def Let_def)
    with createShaders_fed [of h ?w3 w'] Inl w3 show ?thesis
      by (simp add: fed_from_def)
  next
    case (Inr w')
    then have "init h i w = loop i (createBuffer w')" by (simp add: init_def Let_def)
    with createShaders_fed [of h ?w3 w'] Inr w3 loop_fed [of i "createBuffer w'"] show ?thesis
      by (auto simp: fed_from_def createBuffer_def)
  qed
qed

lemma fed_from_construct:
  "fed_from (colors_start (resolve_config options)) (colors_end (resolve_config options))
     (construct h canvasId options (fresh_page iw ih t))"
proof (cases "canvas_found h canvasId \<and> webgl_supported h \<and> options \<noteq> JNull")
  case False
  then show ?thesis
    by (auto simp: construct_def fed_from_def fresh_page_def)
next
  case True
  define i where "i = \<lparr>config = resolve_config (if options = JUndefined then JObj [] else options),
              mouseX = 0, mouseY = 0, startTime = t\<rparr>"
  define w where "w = (fresh_page iw ih t)\<lparr>fb := Some i\<rparr>"
  have c: "construct h canvasId options (fresh_page iw ih t) = init h i w"
    using True by (simp add: construct_def Let_def fresh_page_def i_def w_def)
  have cfg: "colors_start (config i) = colors_start (resolve_config options)"
    "colors_end (config i) = colors_end (resolve_config options)"
    by (simp_all add: i_def resolve_config_undefined)
  have "fb w = Some i" "fed_colors (effects w) = []"
    by (simp_all add: w_def fresh_page_def)
  from init_fed [OF this, of h] show ?thesis
    by (simp only: c cfg)
qed

lemma construct_unavailable:
  assumes "\<not> (canvas_found h canvasId \<and> webgl_supported h)"
  shows "inert (construct h canvasId options (fresh_page iw ih t))"
    and "fed_colors (effects (construct h canvasId options (fresh_page iw ih t))) = []"
    and "draw_calls (effects (construct h canvasId options (fresh_page iw ih t))) = 0"
  using assms by (auto simp: construct_def inert_def fresh_page_def)

lemmas run_simps = lifetime_def construct_def init_def createShaders_def compileShader_def
  startAnimation_def
  attachShader_def createBuffer_def loop_def resize_def emit_def fresh_page_def Let_def
  resolve_config_def js_or_def opt_member_def strict_neq_false_def demo_options_def
  pointer_def interaction_def

section \<open>Configuration resolution\<close>

text \<open>
  Claim C9. A supplied value of 0 for \<open>animation.speed\<close> or for \<open>interaction.strength\<close> is
  treated as absent: the resolved configuration holds the default (speed 1.0, strength 1.5)
  and not 0.
\<close>

theorem zero_scalar_resolves_to_default:
  "(opt_member (member options ''animation'') ''speed'' = JNum 0
      \<longrightarrow> animation_speed (resolve_config options) = JNum 1.0) \<and>
   (opt_member (member options ''interaction'') ''strength'' = JNum 0
      \<longrightarrow> interaction_strength (resolve_config options) = JNum 1.5)"
  by (simp add: resolve_config_def js_or_def)

theorem zero_scalar_resolves_to_default_witness:
  "opt_member (member (JObj [(''animation'', JObj [(''speed'', JNum 0)]),
                             (''interaction'', JObj [(''strength'', JNum 0)])])
                      ''animation'') ''speed'' = JNum 0 \<and>
   opt_member (member (JObj [(''animation'', JObj [(''speed'', JNum 0)]),
                             (''interaction'', JObj [(''strength'', JNum 0)])])
                      ''interaction'') ''strength'' = JNum 0 \<and>
   animation_speed (resolve_config
       (JObj [(''animation'', JObj [(''speed'', JNum 0)]),
              (''interaction'', JObj [(''strength'', JNum 0)])])) = JNum 1.0 \<and>
   interaction_strength (resolve_config
       (JObj [(''animation'', JObj [(''speed'', JNum 0)]),
              (''interaction'', JObj [(''strength'', JNum 0)])])) = JNum 1.5"
  using zero_scalar_resolves_to_default
    [of "JObj [(''animation'', JObj [(''speed'', JNum 0)]),
               (''interaction'', JObj [(''strength'', JNum 0)])]"]
  by (simp add: opt_member_def)

text \<open>
  Claim C10. Interaction is enabled for every constructed instance unless the supplied
  option \<open>interaction.enabled\<close> is exactly the value false; an absent option, 0, null or a
  string all resolve to true.
\<close>

theorem interaction_enabled_unless_false:
  assumes "canvas_found h canvasId" and "webgl_supported h" and "options \<noteq> JNull"
  shows "interaction (construct h canvasId options (fresh_page iw ih t)) =
           Some (opt_member (member options ''interaction'') ''enabled'' \<noteq> JBool False)"
proof -
  let ?opts = "if options = JUndefined then JObj [] else options"
  have "fb (construct h canvasId options (fresh_page iw ih t)) =
          Some \<lparr>config = resolve_config ?opts, mouseX = 0, mouseY = 0, startTime = t\<rparr>"
    using assms by (simp add: construct_def init_fields fresh_page_def Let_def)
  moreover have "resolve_config ?opts = resolve_config options"
    by (simp add: resolve_config_undefined)
  ultimately show ?thesis
    by (simp add: interaction_def resolve_config_def strict_neq_false_def)
qed

theorem interaction_enabled_unless_false_witness:
  "canvas_found working_host ''fractal-canvas'' \<and> webgl_supported working_host \<and>
   JObj [(''interaction'', JObj [(''enabled'', JNum 0)])] \<noteq> JNull \<and>
   interaction (construct working_host ''fractal-canvas''
                  (JObj [(''interaction'', JObj [(''enabled'', JNum 0)])])
                  (fresh_page 800 600 0)) = Some True \<and>
   JObj [(''interaction'', JObj [(''enabled'', JBool False)])] \<noteq> JNull \<and>
   interaction (construct working_host ''fractal-canvas''
                  (JObj [(''interaction'', JObj [(''enabled'', JBool False)])])
                  (fresh_page 800 600 0)) = Some False"
  using interaction_enabled_unless_false
          [of working_host "''fractal-canvas''"
              "JObj [(''interaction'', JObj [(''enabled'', JNum 0)])]" 800 600 0]
        interaction_enabled_unless_false
          [of working_host "''fractal-canvas''"
              "JObj [(''interaction'', JObj [(''enabled'', JBool False)])]" 800 600 0]
  by (simp add: working_host_def opt_member_def)

text \<open>
  Claim C7. The colours supplied at construction are the values fed to the per-pixel program
  in every frame, unmodified. Over the whole life of the page, every value handed to
  \<open>gl.uniform3fv\<close> for the start colour is the supplied start colour, every value handed
  over for the end colour is the supplied end colour, and when both are supplied the values
  handed over are exactly that pair, once for each draw call.
\<close>

theorem colors_round_trip:
  "(opt_member (member options ''colors'') ''start'' = JArr xs \<longrightarrow>
      (\<forall>v. (U_colorStart, v) \<in> set (fed_colors (effects (lifetime h canvasId options iw ih t evs)))
           \<longrightarrow> v = JArr xs)) \<and>
   (opt_member (member options ''colors'') ''end'' = JArr ys \<longrightarrow>
      (\<forall>v. (U_colorEnd, v) \<in> set (fed_colors (effects (lifetime h canvasId options iw ih t evs)))
           \<longrightarrow> v = JArr ys)) \<and>
   (opt_member (member options ''colors'') ''start'' = JArr xs \<and>
    opt_member (member options ''colors'') ''end'' = JArr ys \<longrightarrow>
      fed_colors (effects (lifetime h canvasId options iw ih t evs)) =
        concat (replicate (draw_calls (effects (lifetime h canvasId options iw ih t evs)))
                  [(U_colorStart, JArr xs), (U_colorEnd, JArr ys)]))"
proof -
  let ?L = "lifetime h canvasId options iw ih t evs"
  let ?w = "construct h canvasId options (fresh_page iw ih t)"
  have inv: "fed_from (colors_start (resolve_config options))
                      (colors_end (resolve_config options)) ?L"
    by (simp add: lifetime_def fed_from_run fed_from_construct)
  show ?thesis
  proof (intro conjI impI allI)
    fix v
    assume s: "opt_member (member options ''colors'') ''start'' = JArr xs"
      and v: "(U_colorStart, v) \<in> set (fed_colors (effects ?L))"
    from s have "colors_start (resolve_config options) = JArr xs"
      by (simp add: resolve_config_def js_or_def)
    with inv v show "v = JArr xs" by (auto simp: fed_from_def)
  next
    fix v
    assume s: "opt_member (member options ''colors'') ''end'' = JArr ys"
      and v: "(U_colorEnd, v) \<in> set (fed_colors (effects ?L))"
    from s have "colors_end (resolve_config options) = JArr ys"
      by (simp add: resolve_config_def js_or_def)
    with inv v show "v = JArr ys" by (auto simp: fed_from_def)
  next
    assume both: "opt_member (member options ''colors'') ''start'' = JArr xs \<and>
                  opt_member (member options ''colors'') ''end'' = JArr ys"
    then have nn: "options \<noteq> JNull" by (auto simp: opt_member_def)
    have cs: "JArr xs = colors_start (resolve_config options)"
      and ce: "JArr ys = colors_end (resolve_config options)"
      using both by (simp_all add: resolve_config_def js_or_def)
    show "fed_colors (effects ?L) =
            concat (replicate (draw_calls (effects ?L))
                      [(U_colorStart, JArr xs), (U_colorEnd, JArr ys)])"
    proof (cases "canvas_found h canvasId \<and> webgl_supported h")
      case False
      from construct_unavailable [OF False, of options iw ih t]
      show ?thesis by (simp add: lifetime_def inert_run)
    next
      case avail: True
      show ?thesis
      proof (cases "null_shader_throws h \<and>
                    \<not> (compile_status h VERTEX_SHADER \<and> compile_status h FRAGMENT_SHADER)")
        case True
        with avail construct_aborted [of h canvasId options iw ih t] nn
        have "\<not> frame_requested ?w" "draw_calls (effects ?w) = 0" "fed_colors (effects ?w) = []"
          by simp_all
        then show ?thesis
          by (simp add: lifetime_def stopped_run stopped_run_fed)
      next
        case False
        then have ok: "null_shader_throws h \<longrightarrow>
                         compile_status h VERTEX_SHADER \<and> compile_status h FRAGMENT_SHADER"
          by blast
        from avail have a: "canvas_found h canvasId" "webgl_supported h" by simp_all
        from construct_started [OF a nn ok cs ce, of iw ih t]
        have "running (JArr xs) (JArr ys) ?w" "draw_calls (effects ?w) = 1"
          "fed_colors (effects ?w) = [(U_colorStart, JArr xs), (U_colorEnd, JArr ys)]"
          by simp_all
        then show ?thesis
          by (simp add: lifetime_def running_run_draws running_run_fed)
      qed
    qed
  qed
qed

theorem colors_round_trip_witness:
  "opt_member (member demo_options ''colors'') ''start'' =
     JArr [JNum 0.05, JNum 0.08, JNum 0.12] \<and>
   opt_member (member demo_options ''colors'') ''end'' =
     JArr [JNum 0.2, JNum 0.5, JNum 0.55] \<and>
   draw_calls (effects (lifetime working_host ''fractal-canvas'' demo_options 800 600 0
                          [Refresh 16, MouseMove 10 20])) = 2 \<and>
   fed_colors (effects (lifetime working_host ''fractal-canvas'' demo_options 800 600 0
                          [Refresh 16, MouseMove 10 20])) =
     [(U_colorStart, JArr [JNum 0.05, JNum 0.08, JNum 0.12]),
      (U_colorEnd, JArr [JNum 0.2, JNum 0.5, JNum 0.55]),
      (U_colorStart, JArr [JNum 0.05, JNum 0.08, JNum 0.12]),
      (U_colorEnd, JArr [JNum 0.2, JNum 0.5, JNum 0.55])]"
proof -
  have d: "draw_calls (effects (lifetime working_host ''fractal-canvas'' demo_options 800 600 0
                          [Refresh 16, MouseMove 10 20])) = 2"
    by (simp add: run_simps working_host_def)
  have h: "opt_member (member demo_options ''colors'') ''start'' =
       JArr [JNum 0.05, JNum 0.08, JNum 0.12]"
    "opt_member (member demo_options ''colors'') ''end'' =
       JArr [JNum 0.2, JNum 0.5, JNum 0.55]"
    by (simp_all add: demo_options_def opt_member_def)
  note t = colors_round_trip [of demo_options "[JNum 0.05, JNum 0.08, JNum 0.12]"
         working_host "''fractal-canvas''" 800 600 0 "[Refresh 16, MouseMove 10 20]"
         "[JNum 0.2, JNum 0.5, JNum 0.55]", THEN conjunct2, THEN conjunct2, rule_format,
         OF conjI [OF h]]
  have "concat (replicate 2 [(U_colorStart, JArr [JNum 0.05, JNum 0.08, JNum 0.12]),
                             (U_colorEnd, JArr [JNum 0.2, JNum 0.5, JNum 0.55])]) =
        [(U_colorStart, JArr [JNum 0.05, JNum 0.08, JNum 0.12]),
         (U_colorEnd, JArr [JNum 0.2, JNum 0.5, JNum 0.55]),
         (U_colorStart, JArr [JNum 0.05, JNum 0.08, JNum 0.12]),
         (U_colorEnd, JArr [JNum 0.2, JNum 0.5, JNum 0.55])]"
    by (simp add: numeral_2_eq_2)
  with t d h show ?thesis by (simp only:) 
qed

section \<open>The drawable surface and the pointer\<close>

text \<open>
  Claim C8. When the named canvas is absent, or no WebGL context can be obtained, the
  failure is reported once and the frame loop never starts: over the whole life of the page
  the only effect is that one console error, and no draw call is issued.
\<close>

theorem surface_unavailable_reported_once:
  assumes "\<not> canvas_found h canvasId \<or> \<not> webgl_supported h"
  shows \<open>effects (lifetime h canvasId options iw ih t evs) =
           [ConsoleError (if \<not> canvas_found h canvasId
                          then ''Canvas with id "'' @ canvasId @ ''" not found.''
                          else ''WebGL not supported'')] \<and>
         draw_calls (effects (lifetime h canvasId options iw ih t evs)) = 0\<close>
proof -
  let ?w = "construct h canvasId options (fresh_page iw ih t)"
  have "inert ?w" using assms
    by (auto simp: construct_def inert_def fresh_page_def)
  then have "effects (lifetime h canvasId options iw ih t evs) = effects ?w"
    by (simp add: lifetime_def inert_run)
  moreover have \<open>effects ?w = [ConsoleError (if \<not> canvas_found h canvasId
                          then ''Canvas with id "'' @ canvasId @ ''" not found.''
                          else ''WebGL not supported'')]\<close>
    using assms by (auto simp: construct_def fresh_page_def)
  ultimately show ?thesis by simp
qed

theorem surface_unavailable_reported_once_witness:
  \<open>\<not> canvas_found working_host ''missing'' \<and>
   effects (lifetime working_host ''missing'' demo_options 800 600 0
              [Refresh 16, MouseMove 10 20, Resize 640 480, Refresh 33]) =
     [ConsoleError ''Canvas with id "missing" not found.''] \<and>
   \<not> webgl_supported no_webgl_host \<and>
   effects (lifetime no_webgl_host ''fractal-canvas'' demo_options 800 600 0
              [Refresh 16, MouseMove 10 20, Resize 640 480, Refresh 33]) =
     [ConsoleError ''WebGL not supported'']\<close>
  using surface_unavailable_reported_once
          [of working_host "''missing''" demo_options 800 600 0
              "[Refresh 16, MouseMove 10 20, Resize 640 480, Refresh 33]"]
        surface_unavailable_reported_once
          [of no_webgl_host "''fractal-canvas''" demo_options 800 600 0
              "[Refresh 16, MouseMove 10 20, Resize 640 480, Refresh 33]"]
  by (simp add: working_host_def no_webgl_host_def)

text \<open>
  Claim C5. With interaction enabled, after a pointer-move notification at raw position
  (x, y) the recorded pointer position is (x, surfaceHeight - y), where surfaceHeight is the
  pixel height of the canvas when the notification arrives.
\<close>

theorem pointer_move_recorded:
  assumes "interaction (lifetime h canvasId options iw ih t evs) = Some True"
  shows "pointer (lifetime h canvasId options iw ih t (evs @ [MouseMove x y])) =
           Some (x, real (canvas_height (lifetime h canvasId options iw ih t evs)) - y)"
proof -
  let ?w = "lifetime h canvasId options iw ih t evs"
  from assms obtain i where i: "fb ?w = Some i" "interaction_enabled (config i)"
    by (auto simp: interaction_def)
  then have "mousemove_listener ?w"
    using wired_lifetime [of h canvasId options iw ih t evs]
    by (simp add: wired_def)
  moreover have "lifetime h canvasId options iw ih t (evs @ [MouseMove x y]) =
                 step ?w (MouseMove x y)"
    by (simp add: lifetime_def run_events_append)
  ultimately show ?thesis using i(1) by (simp add: pointer_def)
qed

theorem pointer_move_recorded_witness:
  "interaction (lifetime working_host ''fractal-canvas'' demo_options 800 600 0
                  [Resize 1024 768, Refresh 16]) = Some True \<and>
   pointer (lifetime working_host ''fractal-canvas'' demo_options 800 600 0
              ([Resize 1024 768, Refresh 16] @ [MouseMove 100 200])) = Some (100, 568)"
proof -
  have h: "interaction (lifetime working_host ''fractal-canvas'' demo_options 800 600 0
                  [Resize 1024 768, Refresh 16]) = Some True"
    by (simp add: run_simps working_host_def)
  have c: "canvas_height (lifetime working_host ''fractal-canvas'' demo_options 800 600 0
                  [Resize 1024 768, Refresh 16]) = 768"
    by (simp add: run_simps working_host_def)
  from pointer_move_recorded [OF h, of 100 200] h c show ?thesis by simp
qed

text \<open>
  Claim C6. With interaction disabled at construction, no notification alters the pointer
  position: it is (0, 0) after construction and stays so for the whole life of the page.
\<close>

theorem pointer_frozen_when_disabled:
  assumes "interaction (construct h canvasId options (fresh_page iw ih t)) = Some False"
  shows "pointer (construct h canvasId options (fresh_page iw ih t)) = Some (0, 0) \<and>
         pointer (lifetime h canvasId options iw ih t evs) = Some (0, 0)"
proof -
  let ?w = "construct h canvasId options (fresh_page iw ih t)"
  from assms obtain i0 where i0: "fb ?w = Some i0" "\<not> interaction_enabled (config i0)"
    by (auto simp: interaction_def)
  then have "\<not> mousemove_listener ?w"
    using wired_construct [of h canvasId options iw ih t] by (simp add: wired_def)
  then have "fb (lifetime h canvasId options iw ih t evs) = Some i0"
    using i0(1) by (simp add: lifetime_def unwired_run)
  moreover from construct_fb [OF i0(1)] have "mouseX i0 = 0 \<and> mouseY i0 = 0" by simp
  ultimately show ?thesis using i0(1) by (simp add: pointer_def)
qed

theorem pointer_frozen_when_disabled_witness:
  "interaction (construct working_host ''fractal-canvas''
                  (JObj [(''interaction'', JObj [(''enabled'', JBool False)])])
                  (fresh_page 800 600 0)) = Some False \<and>
   pointer (lifetime working_host ''fractal-canvas''
              (JObj [(''interaction'', JObj [(''enabled'', JBool False)])]) 800 600 0
              [MouseMove 100 200, Refresh 16, MouseMove 300 400]) = Some (0, 0)"
proof -
  have h: "interaction (construct working_host ''fractal-canvas''
                  (JObj [(''interaction'', JObj [(''enabled'', JBool False)])])
                  (fresh_page 800 600 0)) = Some False"
    by (simp add: run_simps working_host_def)
  from pointer_frozen_when_disabled
         [OF h, of "[MouseMove 100 200, Refresh 16, MouseMove 300 400]"] h
  show ?thesis by simp
qed

section \<open>Shader compilation and linking\<close>

text \<open>
  Claim C1 says that a compile or link failure is reported and that the frame loop then
  never starts. On a host whose driver compiles both shaders and fails to link the program,
  the constructor of the demo page reports nothing, draws once, and draws again at the next
  display refresh.
\<close>

theorem link_failure_counterexample:
  "link_status link_failing_host = False \<and>
   console_errors (effects (lifetime link_failing_host ''fractal-canvas'' demo_options
                              800 600 0 [Refresh 16])) = [] \<and>
   draw_calls (effects (lifetime link_failing_host ''fractal-canvas'' demo_options
                              800 600 0 [Refresh 16])) = 2"
  by (simp add: run_simps link_failing_host_def)

text \<open>
  Claim C1, amended. When the compilation of a shader fails during construction, the info
  log of that shader is reported through \<open>console.error\<close>; if moreover the host rejects a
  null shader in \<open>attachShader\<close>, construction ends there and no draw call is ever issued.
  The link status does not gate the frame loop: when both shaders compile (and the colours
  are arrays), construction issues the first draw call and every display refresh one more.
\<close>

theorem shader_failure_reported_link_unchecked:
  assumes "canvas_found h canvasId" and "webgl_supported h" and "options \<noteq> JNull"
  shows "(\<not> compile_status h ty \<longrightarrow>
            shader_info_log h ty \<in>
              set (console_errors (effects (lifetime h canvasId options iw ih t evs)))) \<and>
         (\<not> compile_status h ty \<and> null_shader_throws h \<longrightarrow>
            draw_calls (effects (lifetime h canvasId options iw ih t evs)) = 0) \<and>
         (compile_status h VERTEX_SHADER \<and> compile_status h FRAGMENT_SHADER \<and>
          is_array (colors_start (resolve_config options)) \<and>
          is_array (colors_end (resolve_config options)) \<longrightarrow>
            draw_calls (effects (lifetime h canvasId options iw ih t evs)) =
              1 + count_refresh evs)"
proof (intro conjI impI)
  assume "\<not> compile_status h ty"
  from construct_reports [OF assms this, of iw ih t]
  show "shader_info_log h ty \<in>
          set (console_errors (effects (lifetime h canvasId options iw ih t evs)))"
    by (simp add: lifetime_def errors_persist)
next
  assume a: "\<not> compile_status h ty \<and> null_shader_throws h"
  then have "\<not> (compile_status h VERTEX_SHADER \<and> compile_status h FRAGMENT_SHADER)"
    by (cases ty) auto
  with a construct_aborted [OF assms, of iw ih t]
  show "draw_calls (effects (lifetime h canvasId options iw ih t evs)) = 0"
    by (simp add: lifetime_def stopped_run)
next
  assume a: "compile_status h VERTEX_SHADER \<and> compile_status h FRAGMENT_SHADER \<and>
          is_array (colors_start (resolve_config options)) \<and>
          is_array (colors_end (resolve_config options))"
  then have "null_shader_throws h \<longrightarrow>
               compile_status h VERTEX_SHADER \<and> compile_status h FRAGMENT_SHADER"
    by simp
  from construct_started [OF assms this refl refl, of iw ih t] a
  show "draw_calls (effects (lifetime h canvasId options iw ih t evs)) = 1 + count_refresh evs"
    by (simp add: lifetime_def running_run_draws)
qed

theorem shader_failure_reported_link_unchecked_witness:
  "canvas_found bad_fragment_host ''fractal-canvas'' \<and> webgl_supported bad_fragment_host \<and>
   demo_options \<noteq> JNull \<and>
   \<not> compile_status bad_fragment_host FRAGMENT_SHADER \<and> null_shader_throws bad_fragment_host \<and>
   ''syntax error'' \<in> set (console_errors (effects
       (lifetime bad_fragment_host ''fractal-canvas'' demo_options 800 600 0 [Refresh 16]))) \<and>
   draw_calls (effects
       (lifetime bad_fragment_host ''fractal-canvas'' demo_options 800 600 0 [Refresh 16])) = 0 \<and>
   canvas_found link_failing_host ''fractal-canvas'' \<and> webgl_supported link_failing_host \<and>
   compile_status link_failing_host VERTEX_SHADER \<and>
   compile_status link_failing_host FRAGMENT_SHADER \<and>
   is_array (colors_start (resolve_config demo_options)) \<and>
   is_array (colors_end (resolve_config demo_options)) \<and>
   \<not> link_status link_failing_host \<and>
   draw_calls (effects
       (lifetime link_failing_host ''fractal-canvas'' demo_options 800 600 0
          [Refresh 16, Refresh 33])) = 3"
  using shader_failure_reported_link_unchecked
          [of bad_fragment_host "''fractal-canvas''" demo_options FRAGMENT_SHADER
              800 600 0 "[Refresh 16]"]
        shader_failure_reported_link_unchecked
          [of link_failing_host "''fractal-canvas''" demo_options FRAGMENT_SHADER
              800 600 0 "[Refresh 16, Refresh 33]"]
  by (simp add: bad_fragment_host_def link_failing_host_def demo_options_def
        resolve_config_def js_or_def opt_member_def count_refresh_def)

section \<open>The per-pixel program\<close>

text \<open>
  Claim C4. The parameter used by the per-pixel program is
  c = (-0.8, 0.156) + autoAnim + mouseOffset, where
  autoAnim = (sin(0.3 t) 0.1, cos(0.2 t) 0.1) with t = elapsedSeconds * speed, and
  mouseOffset = (pointer / resolution - 0.5) * strength, component by component.
\<close>

theorem c_parameter:
  "fs_c u =
     (-0.8 + sin (0.3 * (u_time u * u_speed u)) * 0.1
           + (fst (u_mouse u) / fst (u_resolution u) - 0.5) * u_strength u,
      0.156 + cos (0.2 * (u_time u * u_speed u)) * 0.1
           + (snd (u_mouse u) / snd (u_resolution u) - 0.5) * u_strength u)"
  by (simp add: fs_c_def Let_def mult.commute)

text \<open>
  Claim C2. The per-pixel program iterates the map that sends z to \<open>z\<^sup>2 + c\<close>, starting from
  z = uv, for at most 100 iterations; it stops at the first iteration after which |z| > 2,
  and iter is the number of that iteration (counted from 0); iter < 100 exactly when the
  point escaped within the 100 iterations.
\<close>

theorem escape_time_iteration:
  assumes "fractal_loop c 0 uv 0 = (z, iter)"
  shows "iter \<le> 100 \<and>
    (\<forall>k<iter. \<not> escaped (spec_orbit (to_complex c) (to_complex uv) (Suc k))) \<and>
    (iter < 100 \<longrightarrow>
       escaped (spec_orbit (to_complex c) (to_complex uv) (Suc iter)) \<and>
       to_complex z = spec_orbit (to_complex c) (to_complex uv) (Suc iter)) \<and>
    (iter = 100 \<longrightarrow> to_complex z = spec_orbit (to_complex c) (to_complex uv) 100) \<and>
    ((iter < 100) = (\<exists>k<100. escaped (spec_orbit (to_complex c) (to_complex uv) (Suc k))))"
proof -
  have "0 \<le> max_iter" by simp
  from fractal_loop_run [OF this assms]
  have le: "iter \<le> 100"
    and before: "\<forall>k<iter. \<not> 2 < glsl_length ((julia_step c ^^ Suc k) uv)"
    and stop: "iter < 100 \<longrightarrow> 2 < glsl_length ((julia_step c ^^ Suc iter) uv) \<and>
                 z = (julia_step c ^^ Suc iter) uv"
    and full: "iter = 100 \<longrightarrow> z = (julia_step c ^^ 100) uv"
    by (simp_all add: max_iter_def)
  have b: "\<forall>k<iter. \<not> escaped (spec_orbit (to_complex c) (to_complex uv) (Suc k))"
    using before by (simp only: escaped_step orbit_complex)
  have s: "iter < 100 \<longrightarrow>
       escaped (spec_orbit (to_complex c) (to_complex uv) (Suc iter)) \<and>
       to_complex z = spec_orbit (to_complex c) (to_complex uv) (Suc iter)"
    using stop by (auto simp only: escaped_step orbit_complex)
  have f: "iter = 100 \<longrightarrow> to_complex z = spec_orbit (to_complex c) (to_complex uv) 100"
    using full by (auto simp only: orbit_complex)
  have "(iter < 100) = (\<exists>k<100. escaped (spec_orbit (to_complex c) (to_complex uv) (Suc k)))"
  proof
    assume "iter < 100"
    with s show "\<exists>k<100. escaped (spec_orbit (to_complex c) (to_complex uv) (Suc k))" by blast
  next
    assume "\<exists>k<100. escaped (spec_orbit (to_complex c) (to_complex uv) (Suc k))"
    then obtain k where "k < 100" "escaped (spec_orbit (to_complex c) (to_complex uv) (Suc k))"
      by blast
    with b have "\<not> k < iter" by blast
    with \<open>k < 100\<close> show "iter < 100" by simp
  qed
  with le b s f show ?thesis by blast
qed

theorem escape_time_iteration_witness:
  "fractal_loop (0, 0) 0 (1.2, 0) 0 = ((2.0736, 0), 1) \<and>
   \<not> escaped (spec_orbit (to_complex (0, 0)) (to_complex (1.2, 0)) (Suc 0)) \<and>
   escaped (spec_orbit (to_complex (0, 0)) (to_complex (1.2, 0)) (Suc 1)) \<and>
   to_complex (2.0736, 0) = spec_orbit (to_complex (0, 0)) (to_complex (1.2, 0)) (Suc 1)"
proof -
  have h: "fractal_loop (0, 0) 0 (1.2, 0) 0 = ((2.0736, 0), 1)"
    by (simp add: max_iter_def julia_step_def glsl_length_gt_2 glsl_dot_def)
  from escape_time_iteration [OF h] h show ?thesis by simp
qed

text \<open>
  Claim C3. For a pixel that escapes (iter < 100) the output colour is the linear blend of
  colorStart and colorEnd by the factor glow, where smooth = iter - log2(log2(z.z)) + 4,
  t = smooth / 100 and glow = t^0.5 * (0.8 + 0.2 sin(0.5 elapsedSeconds)); for a pixel that
  does not escape within 100 iterations it is (0.01, 0.01, 0.02); the opacity is 1 in both
  cases.
\<close>

theorem pixel_colour:
  assumes "fractal_loop (fs_c u) 0 (fs_uv u fragCoord) 0 = (z, iter)"
  shows "(iter < 100 \<longrightarrow>
            fs_main u fragCoord =
              opaque (spec_blend (u_colorStart u) (u_colorEnd u) (spec_glow iter z (u_time u)))) \<and>
         (\<not> iter < 100 \<longrightarrow> fs_main u fragCoord = (0.01, 0.01, 0.02, 1))"
proof (intro conjI impI)
  assume "iter < 100"
  then have "iter < max_iter" by (simp add: max_iter_def)
  with assms have "fs_main u fragCoord =
      opaque (glsl_mix (u_colorStart u) (u_colorEnd u)
        (glsl_pow ((real iter - glsl_log2 (glsl_log2 (glsl_dot z z)) + 4) / real max_iter) 0.5 *
           (0.8 + sin (u_time u * 0.5) * 0.2)))"
    by (simp add: fs_main_def Let_def opaque_components)
  then show "fs_main u fragCoord =
      opaque (spec_blend (u_colorStart u) (u_colorEnd u) (spec_glow iter z (u_time u)))"
    by (simp only: glow_is_spec_glow mix_is_blend)
next
  assume "\<not> iter < 100"
  then have "\<not> iter < max_iter" by (simp add: max_iter_def)
  with assms show "fs_main u fragCoord = (0.01, 0.01, 0.02, 1)"
    by (simp add: fs_main_def Let_def)
qed

theorem pixel_colour_witness:
  "fractal_loop (fs_c small_frame) 0 (fs_uv small_frame (3.5, 1.5)) 0 =
     ((2.325, 2.59975), 0) \<and>
   fs_main small_frame (3.5, 1.5) =
     opaque (spec_blend (0.05, 0.08, 0.12) (0.2, 0.5, 0.55) (spec_glow 0 (2.325, 2.59975) 0)) \<and>
   fractal_loop (fs_c still_frame) 0 (fs_uv still_frame (500.5, 500.5)) 0 = ((0, 0), 100) \<and>
   fs_main still_frame (500.5, 500.5) = (0.01, 0.01, 0.02, 1)"
proof -
  have c1: "fs_c small_frame = (-0.8, 0.256)" and u1: "fs_uv small_frame (3.5, 1.5) = (1.875, 0.625)"
    by (simp_all add: fs_c_def fs_uv_def small_frame_def Let_def)
  have h1: "fractal_loop (fs_c small_frame) 0 (fs_uv small_frame (3.5, 1.5)) 0 =
              ((2.325, 2.59975), 0)"
    unfolding c1 u1
    by (simp add: max_iter_def julia_step_def glsl_length_gt_2 glsl_dot_def)
  have c2: "fs_c still_frame = (0, 0)" and u2: "fs_uv still_frame (500.5, 500.5) = (0, 0)"
    by (simp_all add: fs_c_def fs_uv_def still_frame_def Let_def)
  have h2: "fractal_loop (fs_c still_frame) 0 (fs_uv still_frame (500.5, 500.5)) 0 =
              ((0, 0), 100)"
    unfolding c2 u2 by (simp add: zero_orbit max_iter_def del: fractal_loop.simps)
  from pixel_colour [OF h1] pixel_colour [OF h2] h1 h2 show ?thesis
    by (simp add: small_frame_def)
qed

end
